theory Spec2Isabelle
  imports Main "HOL-Library.AList"
begin

section \<open>Python values\<close>

text \<open>
  The values the program handles are the ones \<^verbatim>\<open>response.json()\<close> and
  \<^verbatim>\<open>json.load\<close> produce, and \<^verbatim>\<open>None\<close>. Python's \<^verbatim>\<open>None\<close> is the
  decoding of JSON \<^verbatim>\<open>null\<close>, so both are \<open>JNull\<close>. A dict keeps its insertion order and
  is an association list (the decoders produce distinct keys; no property below depends on
  it). JSON numbers with a fraction or an exponent (Python floats) are left out:
  the program applies to a number only the operations below, which treat every number alike.
\<close>

datatype json =
    JNull
  | JBool bool
  | JInt int
  | JStr string
  | JArr "json list"
  | JObj "(string \<times> json) list"

text \<open>The exceptions that occur: the first three are \<^verbatim>\<open>requests.exceptions.RequestException\<close>s.\<close>

datatype exn =
    ConnectionError
  | HTTPError nat
  | RequestsJSONDecodeError
  | FileNotFoundError
  | JSONDecodeError
  | OSError
  | UnboundLocalError string
  | KeyError json
  | IndexError
  | TypeError
  | AttributeError
  | ValueError
  | EOFError

fun is_RequestException :: "exn \<Rightarrow> bool" where
  "is_RequestException ConnectionError = True"
| "is_RequestException (HTTPError s) = True"
| "is_RequestException RequestsJSONDecodeError = True"
| "is_RequestException e = False"

text \<open>Truth value testing (\<^verbatim>\<open>if x:\<close>).\<close>

fun truthy :: "json \<Rightarrow> bool" where
  "truthy JNull = False"
| "truthy (JBool b) = b"
| "truthy (JInt n) = (n \<noteq> 0)"
| "truthy (JStr s) = (s \<noteq> [])"
| "truthy (JArr xs) = (xs \<noteq> [])"
| "truthy (JObj kvs) = (kvs \<noteq> [])"

fun starts_with :: "string \<Rightarrow> string \<Rightarrow> bool" where
  "starts_with [] s = True"
| "starts_with (c # k) [] = False"
| "starts_with (c # k) (d # s) = (c = d \<and> starts_with k s)"

fun substring :: "string \<Rightarrow> string \<Rightarrow> bool" where
  "substring k [] = (k = [])"
| "substring k (d # s) = (starts_with k (d # s) \<or> substring k s)"

text \<open>\<^verbatim>\<open>k in x\<close> for a string \<open>k\<close>: a key of a dict, an element of a list, a substring of a string.\<close>

fun py_in :: "string \<Rightarrow> json \<Rightarrow> exn + bool" where
  "py_in k (JObj kvs) = Inr (k \<in> fst ` set kvs)"
| "py_in k (JArr xs) = Inr (JStr k \<in> set xs)"
| "py_in k (JStr s) = Inr (substring k s)"
| "py_in k x = Inl TypeError"

text \<open>\<^verbatim>\<open>x[k]\<close> for a string \<open>k\<close>.\<close>

fun py_getitem :: "json \<Rightarrow> string \<Rightarrow> exn + json" where
  "py_getitem (JObj kvs) k = (case map_of kvs k of None \<Rightarrow> Inl (KeyError (JStr k)) | Some v \<Rightarrow> Inr v)"
| "py_getitem x k = Inl TypeError"

text \<open>\<^verbatim>\<open>x[k] = v\<close> for a string \<open>k\<close>: the value after the assignment.\<close>

fun py_setitem :: "json \<Rightarrow> string \<Rightarrow> json \<Rightarrow> exn + json" where
  "py_setitem (JObj kvs) k v = Inr (JObj (AList.update k v kvs))"
| "py_setitem x k v = Inl TypeError"

text \<open>\<^verbatim>\<open>for y in x\<close>: the elements of a list, the keys of a dict, the characters of a string.\<close>

fun py_iter :: "json \<Rightarrow> exn + json list" where
  "py_iter (JArr xs) = Inr xs"
| "py_iter (JObj kvs) = Inr (map (\<lambda>kv. JStr (fst kv)) kvs)"
| "py_iter (JStr s) = Inr (map (\<lambda>c. JStr [c]) s)"
| "py_iter x = Inl TypeError"

fun py_len :: "json \<Rightarrow> exn + nat" where
  "py_len (JArr xs) = Inr (length xs)"
| "py_len (JObj kvs) = Inr (length kvs)"
| "py_len (JStr s) = Inr (length s)"
| "py_len x = Inl TypeError"

text \<open>
  The position an integer index denotes in a sequence of \<open>n\<close> elements, if any: an index below
  zero counts from the end.
\<close>

definition position :: "nat \<Rightarrow> int \<Rightarrow> nat option" where
  "position n i =
     (if 0 \<le> i \<and> i < int n then Some (nat i)
      else if i < 0 \<and> - int n \<le> i then Some (nat (int n + i))
      else None)"

text \<open>\<^verbatim>\<open>x[i]\<close> for an integer \<open>i\<close>.\<close>

fun py_index :: "json \<Rightarrow> int \<Rightarrow> exn + json" where
  "py_index (JArr xs) i =
     (case position (length xs) i of None \<Rightarrow> Inl IndexError | Some j \<Rightarrow> Inr (xs ! j))"
| "py_index (JStr s) i =
     (case position (length s) i of None \<Rightarrow> Inl IndexError | Some j \<Rightarrow> Inr (JStr [s ! j]))"
| "py_index (JObj kvs) i = Inl (KeyError (JInt i))"
| "py_index x i = Inl TypeError"

section \<open>Random strings\<close>

definition ascii_lowercase :: string where
  "ascii_lowercase = ''abcdefghijklmnopqrstuvwxyz''"

definition ascii_uppercase :: string where
  "ascii_uppercase = ''ABCDEFGHIJKLMNOPQRSTUVWXYZ''"

definition ascii_letters :: string where
  "ascii_letters = ascii_lowercase @ ascii_uppercase"

definition digits :: string where
  "digits = ''0123456789''"

text \<open>
  \<^verbatim>\<open>string.punctuation\<close>: the 32 printable ASCII characters that are neither alphanumeric nor the
  space, in the order of their codes (33 to 47, 58 to 64, 91 to 96, 123 to 126).
\<close>

definition punctuation :: string where
  "punctuation = map char_of ([33..<48] @ [58..<65] @ [91..<97] @ [123..<127] :: nat list)"

text \<open>
  \<^verbatim>\<open>random.choice(seq)\<close> is \<^verbatim>\<open>seq[randbelow(len(seq))]\<close>. The generator is a sequence of raw
  draws; the draw \<open>r\<close> selects position \<open>r mod len(seq)\<close>.
\<close>

definition random_choice :: "'a list \<Rightarrow> nat \<Rightarrow> 'a" where
  "random_choice seq r = seq ! (r mod length seq)"

definition generate_random_username :: "(nat \<Rightarrow> nat) \<Rightarrow> int \<Rightarrow> string" where
  "generate_random_username rnd len =
     (let characters = ascii_lowercase @ digits
      in map (\<lambda>i. random_choice characters (rnd i)) [0..<nat len])"

definition generate_strong_password :: "(nat \<Rightarrow> nat) \<Rightarrow> int \<Rightarrow> string" where
  "generate_strong_password rnd len =
     (let characters = ascii_letters @ digits @ punctuation;
          len' = (if len < 8 then 8 else len)
      in map (\<lambda>i. random_choice characters (rnd i)) [0..<nat len'])"

section \<open>The world outside the program\<close>

text \<open>
  A printed line is kept as its pieces: literal text, a formatted value (\<^verbatim>\<open>{x}\<close> in an
  f-string) and a formatted exception (\<^verbatim>\<open>{e}\<close>).
\<close>

datatype piece = Lit string | Val json | Exc exn

type_synonym line = "piece list"

datatype verb = GET | POST

record request =
  verb :: verb
  url :: string
  headers :: "(string \<times> line) list"
  payload :: "json option"

text \<open>A response: its status code and its body, \<open>None\<close> when the body is not JSON.\<close>

record response =
  status_code :: nat
  body :: "json option"

text \<open>
  What a request meets: no response at all (connection refused or dropped, timeout: the call
  itself raises a \<^verbatim>\<open>RequestException\<close>), or a response.
\<close>

datatype http_result = NoResponse | Responds response

text \<open>
  What a file holds is known through \<^verbatim>\<open>json.load\<close>: the complete output of
  \<^verbatim>\<open>json.dump\<close> for a value decodes to that value; an empty file, a proper prefix of that
  output (the list the program writes ends with a closing bracket, so no proper prefix of it
  decodes) and any other malformed text raise \<^verbatim>\<open>JSONDecodeError\<close>.
\<close>

datatype contents = EmptyText | Malformed | Truncated json | Dumped json

text \<open>A path is absent, exists but cannot be opened (a directory, no permission), or holds text.\<close>

datatype file_state = Absent | Unopenable | Holds contents

text \<open>What happens to one attempt to write a file that can be opened.\<close>

datatype write_outcome = WriteOk | OpenFails | FailsPartway

text \<open>
  The state of the world: the files by name, the outcome of the \<open>k\<close>-th write attempt and the
  number of attempts so far, the outcome of the \<open>k\<close>-th request and the requests sent so far, the
  lines still to be read from the terminal and the lines printed.
\<close>

record world =
  files :: "string \<Rightarrow> file_state"
  disk :: "nat \<Rightarrow> write_outcome"
  writes :: nat
  net :: "nat \<Rightarrow> http_result"
  sent :: "request list"
  stdin :: "string list"
  stdout :: "line list"

definition print :: "line \<Rightarrow> world \<Rightarrow> world" where
  "print l w = w\<lparr>stdout := stdout w @ [l]\<rparr>"

text \<open>Sequencing of steps that may raise: the first exception ends the sequence.\<close>

definition and_then :: "exn + 'a \<Rightarrow> ('a \<Rightarrow> exn + 'b) \<Rightarrow> exn + 'b" where
  "and_then r f = (case r of Inl e \<Rightarrow> Inl e | Inr x \<Rightarrow> f x)"

fun collect :: "('a \<Rightarrow> exn + 'b) \<Rightarrow> 'a list \<Rightarrow> exn + 'b list" where
  "collect f [] = Inr []"
| "collect f (x # xs) =
     and_then (f x) (\<lambda>y. and_then (collect f xs) (\<lambda>ys. Inr (y # ys)))"

section \<open>The remote client\<close>

definition send :: "request \<Rightarrow> world \<Rightarrow> (exn + response) \<times> world" where
  "send rq w =
     (case net w (length (sent w)) of
        NoResponse \<Rightarrow> Inl ConnectionError
      | Responds r \<Rightarrow> Inr r,
      w\<lparr>sent := sent w @ [rq]\<rparr>)"

definition requests_get :: "string \<Rightarrow> (string \<times> line) list \<Rightarrow> world \<Rightarrow> (exn + response) \<times> world" where
  "requests_get u hs w = send \<lparr>verb = GET, url = u, headers = hs, payload = None\<rparr> w"

definition requests_post ::
  "string \<Rightarrow> (string \<times> line) list \<Rightarrow> json \<Rightarrow> world \<Rightarrow> (exn + response) \<times> world" where
  "requests_post u hs j w = send \<lparr>verb = POST, url = u, headers = hs, payload = Some j\<rparr> w"

definition raise_for_status :: "response \<Rightarrow> exn + unit" where
  "raise_for_status r =
     (if 400 \<le> status_code r \<and> status_code r < 600 then Inl (HTTPError (status_code r))
      else Inr ())"

text \<open>
  \<^verbatim>\<open>response.json()\<close>: on a body that is not JSON it raises
  \<^verbatim>\<open>requests.exceptions.JSONDecodeError\<close>, which is a \<^verbatim>\<open>RequestException\<close>.
\<close>

definition response_json :: "response \<Rightarrow> exn + json" where
  "response_json r = (case body r of None \<Rightarrow> Inl RequestsJSONDecodeError | Some j \<Rightarrow> Inr j)"

definition get_domains :: "string \<Rightarrow> world \<Rightarrow> (exn + json) \<times> world" where
  "get_domains base_url w =
     (let (r, w1) = requests_get (base_url @ ''/domains'') [] w;
          tried =
            and_then r (\<lambda>response.
            and_then (raise_for_status response) (\<lambda>_.
            and_then (response_json response) (\<lambda>data.
            and_then (py_getitem data ''hydra:member'') (\<lambda>member.
            and_then (py_iter member) (\<lambda>ds.
            and_then (collect (\<lambda>domain. py_getitem domain ''domain'') ds) (\<lambda>domains.
            Inr (JArr domains)))))))
      in case tried of
           Inr domains \<Rightarrow> (Inr domains, w1)
         | Inl e \<Rightarrow>
             if is_RequestException e
             then (Inr JNull, print [Lit ''Error fetching domains: '', Exc e] w1)
             else (Inl e, w1))"

definition get_token :: "string \<Rightarrow> string \<Rightarrow> string \<Rightarrow> world \<Rightarrow> (exn + json) \<times> world" where
  "get_token base_url address password w =
     (let payload = JObj [(''address'', JStr address), (''password'', JStr password)];
          hs = [(''Content-Type'', [Lit ''application/json''])];
          (r, w1) = requests_post (base_url @ ''/token'') hs payload w;
          tried =
            and_then r (\<lambda>response.
            and_then (raise_for_status response) (\<lambda>_.
            response_json response))
      in case tried of
           Inr token_data \<Rightarrow> (Inr token_data, w1)
         | Inl e \<Rightarrow>
             if is_RequestException e
             then (Inr JNull, print [Lit ''Error getting token: '', Exc e] w1)
             else (Inl e, w1))"

text \<open>
  In \<open>create_account\<close>, \<open>get_messages\<close> and \<open>get_message_content\<close> the handler reads
  \<^verbatim>\<open>response.status_code\<close>. The name \<^verbatim>\<open>response\<close> is bound by the request's return:
  when the request itself raised, the read raises \<^verbatim>\<open>UnboundLocalError\<close> inside the handler.
\<close>

definition create_account ::
  "string \<Rightarrow> string \<Rightarrow> string \<Rightarrow> string \<Rightarrow> world \<Rightarrow> (exn + json) \<times> world" where
  "create_account base_url username password domain w =
     (let address = username @ ''@'' @ domain;
          payload = JObj [(''address'', JStr address), (''password'', JStr password)];
          hs = [(''Content-Type'', [Lit ''application/json''])];
          (r, w1) = requests_post (base_url @ ''/accounts'') hs payload w;
          handler = (\<lambda>e wk.
            if is_RequestException e
            then (let wp = print [Lit ''Error creating account: '', Exc e] wk
                  in case r of
                       Inl _ \<Rightarrow> (Inl (UnboundLocalError ''response''), wp)
                     | Inr response \<Rightarrow>
                         (Inr JNull,
                          if status_code response = 422
                          then print [Lit ''Account creation failed. Possible issues: Username too short, invalid domain, or username already taken.''] wp
                          else wp))
            else (Inl e, wk));
          tried =
            and_then r (\<lambda>response.
            and_then (raise_for_status response) (\<lambda>_.
            response_json response))
      in case tried of
           Inl e \<Rightarrow> handler e w1
         | Inr account_data \<Rightarrow>
             (case get_token base_url address password w1 of
                (Inl e, w2) \<Rightarrow> handler e w2
              | (Inr token_response, w2) \<Rightarrow>
                  (case (if truthy token_response then py_in ''token'' token_response
                         else Inr False) of
                     Inl e \<Rightarrow> handler e w2
                   | Inr True \<Rightarrow>
                       (case and_then (py_getitem token_response ''token'') (\<lambda>t.
                             and_then (py_setitem account_data ''token'' t) (\<lambda>a.
                             py_setitem a ''address'' (JStr address))) of
                          Inl e \<Rightarrow> handler e w2
                        | Inr a \<Rightarrow> (Inr a, w2))
                   | Inr False \<Rightarrow>
                       (Inr JNull, print [Lit ''Error getting token after account creation.''] w2))))"

definition get_messages :: "string \<Rightarrow> json \<Rightarrow> world \<Rightarrow> (exn + json) \<times> world" where
  "get_messages base_url token w =
     (let hs = [(''Authorization'', [Lit ''Bearer '', Val token])];
          (r, w1) = requests_get (base_url @ ''/messages'') hs w;
          tried =
            and_then r (\<lambda>response.
            and_then (raise_for_status response) (\<lambda>_.
            and_then (response_json response) (\<lambda>messages_data.
            py_getitem messages_data ''hydra:member'')))
      in case tried of
           Inr messages \<Rightarrow> (Inr messages, w1)
         | Inl e \<Rightarrow>
             if is_RequestException e
             then (let wp = print [Lit ''Error fetching messages: '', Exc e] w1
                   in case r of
                        Inl _ \<Rightarrow> (Inl (UnboundLocalError ''response''), wp)
                      | Inr response \<Rightarrow>
                          (Inr JNull,
                           if status_code response = 401
                           then print [Lit ''Authentication failed. Invalid token.''] wp
                           else wp))
             else (Inl e, w1))"

definition get_message_content ::
  "string \<Rightarrow> json \<Rightarrow> string \<Rightarrow> world \<Rightarrow> (exn + json) \<times> world" where
  "get_message_content base_url token message_id w =
     (let hs = [(''Authorization'', [Lit ''Bearer '', Val token])];
          (r, w1) = requests_get (base_url @ ''/messages/'' @ message_id) hs w;
          tried =
            and_then r (\<lambda>response.
            and_then (raise_for_status response) (\<lambda>_.
            response_json response))
      in case tried of
           Inr message_content \<Rightarrow> (Inr message_content, w1)
         | Inl e \<Rightarrow>
             if is_RequestException e
             then (let wp = print [Lit ''Error fetching message content for ID '', Lit message_id,
                                   Lit '': '', Exc e] w1
                   in case r of
                        Inl _ \<Rightarrow> (Inl (UnboundLocalError ''response''), wp)
                      | Inr response \<Rightarrow>
                          (let wq = (if status_code response = 401
                                     then print [Lit ''Authentication failed. Invalid token.''] wp
                                     else wp)
                           in (Inr JNull,
                               if status_code response = 404
                               then print [Lit ''Message not found.''] wq
                               else wq)))
             else (Inl e, w1))"

section \<open>The credential store\<close>

definition os_path_exists :: "file_state \<Rightarrow> bool" where
  "os_path_exists f = (f \<noteq> Absent)"

text \<open>\<^verbatim>\<open>with open(filename, 'r') as f: json.load(f)\<close>.\<close>

fun read_json :: "file_state \<Rightarrow> exn + json" where
  "read_json Absent = Inl FileNotFoundError"
| "read_json Unopenable = Inl OSError"
| "read_json (Holds (Dumped j)) = Inr j"
| "read_json (Holds t) = Inl JSONDecodeError"

text \<open>
  \<^verbatim>\<open>with open(filename, 'w') as f: json.dump(accounts, f, indent=4)\<close>: opening for writing
  truncates the file, so a failure after the opening leaves a proper prefix of the new text.
\<close>

definition write_json :: "json \<Rightarrow> write_outcome \<Rightarrow> file_state \<Rightarrow> (exn + unit) \<times> file_state" where
  "write_json j wo f =
     (if f = Unopenable \<or> wo = OpenFails then (Inl OSError, f)
      else if wo = FailsPartway then (Inl OSError, Holds (Truncated j))
      else (Inr (), Holds (Dumped j)))"

definition load_accounts_from_json :: "string \<Rightarrow> world \<Rightarrow> (exn + json) \<times> world" where
  "load_accounts_from_json filename w =
     (if \<not> os_path_exists (files w filename) then (Inr (JArr []), w)
      else case read_json (files w filename) of
             Inr accounts \<Rightarrow> (Inr accounts, w)
           | Inl e \<Rightarrow>
               if e = FileNotFoundError then (Inr (JArr []), w)
               else if e = JSONDecodeError
               then (Inr (JArr []),
                     print [Lit ''Warning: JSON file is empty or corrupted. Returning empty account list.''] w)
               else (Inr (JArr []), print [Lit ''Error loading accounts from JSON: '', Exc e] w))"

text \<open>\<^verbatim>\<open>accounts.append(x)\<close>: only a list has the method.\<close>

fun py_append :: "json \<Rightarrow> json \<Rightarrow> exn + json" where
  "py_append (JArr xs) x = Inr (JArr (xs @ [x]))"
| "py_append y x = Inl AttributeError"

definition save_account_to_json :: "json \<Rightarrow> string \<Rightarrow> world \<Rightarrow> (exn + unit) \<times> world" where
  "save_account_to_json account_data filename w =
     (case load_accounts_from_json filename w of
        (Inl e, w1) \<Rightarrow> (Inl e, w1)
      | (Inr loaded, w1) \<Rightarrow>
          (case py_append loaded account_data of
             Inl e \<Rightarrow> (Inl e, w1)
           | Inr accounts \<Rightarrow>
               (let (r, f) = write_json accounts (disk w1 (writes w1)) (files w1 filename);
                    w2 = w1\<lparr>files := (files w1)(filename := f), writes := Suc (writes w1)\<rparr>
                in case r of
                     Inr _ \<Rightarrow> (Inr (), print [Lit ''Account saved to '', Lit filename] w2)
                   | Inl e \<Rightarrow> (Inr (), print [Lit ''Error saving account to JSON: '', Exc e] w2))))"

section \<open>The interactive loop: using a stored account\<close>

text \<open>
  Of \<open>main\<close>, the branch \<^verbatim>\<open>choice == '2'\<close> of the loop body and the message section that
  follows it. A character of a typed line is a code point below 256.
\<close>

text \<open>Steps that change the world, in sequence: the first exception ends the sequence.\<close>

definition then_run ::
  "(exn + 'a) \<times> world \<Rightarrow> ('a \<Rightarrow> world \<Rightarrow> (exn + 'b) \<times> world) \<Rightarrow> (exn + 'b) \<times> world" where
  "then_run m f = (case m of (Inl e, w) \<Rightarrow> (Inl e, w) | (Inr x, w) \<Rightarrow> f x w)"

text \<open>
  The characters \<^verbatim>\<open>str.strip\<close> removes (\<^verbatim>\<open>str.isspace\<close>), among the code points below
  256: 9 to 13, 28 to 32, 133 and 160.
\<close>

definition is_space :: "char \<Rightarrow> bool" where
  "is_space c = ((9 \<le> (of_char c :: nat) \<and> (of_char c :: nat) \<le> 13)
                 \<or> (28 \<le> (of_char c :: nat) \<and> (of_char c :: nat) \<le> 32)
                 \<or> (of_char c :: nat) = 133 \<or> (of_char c :: nat) = 160)"

definition strip :: "string \<Rightarrow> string" where
  "strip s = rev (dropWhile is_space (rev (dropWhile is_space s)))"

definition is_digit :: "char \<Rightarrow> bool" where
  "is_digit c = (48 \<le> (of_char c :: nat) \<and> (of_char c :: nat) \<le> 57)"

definition digit_value :: "char \<Rightarrow> nat" where
  "digit_value c = of_char c - 48"

text \<open>Decimal digits after the first one; a single underscore may stand between two digits.\<close>

fun more_digits :: "nat \<Rightarrow> string \<Rightarrow> nat option" where
  "more_digits acc [] = Some acc"
| "more_digits acc [c] = (if is_digit c then Some (10 * acc + digit_value c) else None)"
| "more_digits acc (c # d # ds) =
     (if is_digit c then more_digits (10 * acc + digit_value c) (d # ds)
      else if c = CHR ''_'' \<and> is_digit d then more_digits (10 * acc + digit_value d) ds
      else None)"

text \<open>
  The most digits \<^verbatim>\<open>int\<close> converts (\<^verbatim>\<open>sys.get_int_max_str_digits()\<close>, by default 4300):
  a numeral with more digits, leading zeros counted, raises \<^verbatim>\<open>ValueError\<close>.
\<close>

definition max_str_digits :: nat where
  "max_str_digits = 4300"

definition unsigned :: "string \<Rightarrow> nat option" where
  "unsigned s =
     (case s of [] \<Rightarrow> None
      | c # cs \<Rightarrow>
          if is_digit c \<and> length (filter is_digit s) \<le> max_str_digits
          then more_digits (digit_value c) cs
          else None)"

text \<open>
  The characters \<^verbatim>\<open>int\<close> skips around a numeral, among the code points below 256: 9 to 13,
  32, 133 and 160. The codes 28 to 31, which \<^verbatim>\<open>str.strip\<close> removes, are not among them:
  \<^verbatim>\<open>int\<close> raises \<^verbatim>\<open>ValueError\<close> on them.
\<close>

definition is_int_space :: "char \<Rightarrow> bool" where
  "is_int_space c = ((9 \<le> (of_char c :: nat) \<and> (of_char c :: nat) \<le> 13)
                     \<or> (of_char c :: nat) = 32
                     \<or> (of_char c :: nat) = 133 \<or> (of_char c :: nat) = 160)"

text \<open>
  \<^verbatim>\<open>int(s)\<close> for a string: surrounding whitespace, an optional sign, decimal digits;
  anything else raises \<^verbatim>\<open>ValueError\<close>.
\<close>

definition py_int :: "string \<Rightarrow> exn + int" where
  "py_int s =
     (case rev (dropWhile is_int_space (rev (dropWhile is_int_space s))) of
        [] \<Rightarrow> Inl ValueError
      | c # cs \<Rightarrow>
          (if c = CHR ''-'' then (case unsigned cs of None \<Rightarrow> Inl ValueError | Some n \<Rightarrow> Inr (- int n))
           else if c = CHR ''+'' then (case unsigned cs of None \<Rightarrow> Inl ValueError | Some n \<Rightarrow> Inr (int n))
           else (case unsigned (c # cs) of None \<Rightarrow> Inl ValueError | Some n \<Rightarrow> Inr (int n))))"

text \<open>\<^verbatim>\<open>input(prompt)\<close>: the prompt is printed, a line is read; at the end of input it raises.\<close>

definition py_input :: "line \<Rightarrow> world \<Rightarrow> (exn + string) \<times> world" where
  "py_input prompt w =
     (case stdin w of
        [] \<Rightarrow> (Inl EOFError, print prompt w)
      | l # ls \<Rightarrow> (Inr l, (print prompt w)\<lparr>stdin := ls\<rparr>))"

text \<open>\<^verbatim>\<open>print(f"label{x}")\<close> where evaluating \<open>x\<close> may raise.\<close>

definition print_value :: "string \<Rightarrow> exn + json \<Rightarrow> world \<Rightarrow> (exn + unit) \<times> world" where
  "print_value label r w =
     (case r of Inl e \<Rightarrow> (Inl e, w) | Inr v \<Rightarrow> (Inr (), print [Lit label, Val v] w))"

definition dashes :: line where
  "dashes = [Lit (replicate 20 (CHR ''-''))]"

text \<open>The loop \<^verbatim>\<open>for i, account in enumerate(existing_accounts)\<close>.\<close>

fun print_accounts :: "nat \<Rightarrow> json list \<Rightarrow> world \<Rightarrow> (exn + unit) \<times> world" where
  "print_accounts i [] w = (Inr (), w)"
| "print_accounts i (account # rest) w =
     then_run (py_getitem account ''address'', w) (\<lambda>a w.
     then_run (py_getitem account ''id'', w) (\<lambda>d w.
     print_accounts (Suc i) rest
       (print [Val (JInt (int i + 1)), Lit ''. '', Val a, Lit '' (ID: '', Val d, Lit '')''] w)))"

text \<open>
  The branch \<^verbatim>\<open>elif choice == '2'\<close>. The result \<open>None\<close> is \<^verbatim>\<open>continue\<close>; \<open>Some token\<close> is the
  end of the branch, with the variable \<^verbatim>\<open>token\<close> assigned.
\<close>

definition select_existing_account :: "string \<Rightarrow> world \<Rightarrow> (exn + json option) \<times> world" where
  "select_existing_account accounts_filename w =
     then_run (load_accounts_from_json accounts_filename w) (\<lambda>existing_accounts w.
       if \<not> truthy existing_accounts
       then (Inr None, print [Lit ''No accounts found in the saved accounts file.''] w)
       else
       then_run (py_iter existing_accounts, print [Lit (CHR 0x0A # ''Saved Accounts:'')] w) (\<lambda>items w.
       then_run (print_accounts 0 items w) (\<lambda>_ w.
       then_run (py_len existing_accounts, w) (\<lambda>n w.
       then_run (py_input [Lit ''Select an account to view messages (1-'', Val (JInt (int n)),
                           Lit ''): ''] w) (\<lambda>answer w.
       then_run (py_int answer, w) (\<lambda>k w.
         (let account_index = k - 1
          in if \<not> (0 \<le> account_index \<and> account_index < int n)
             then (Inr None, print [Lit ''Invalid account selection.''] w)
             else
             then_run (py_index existing_accounts account_index, w) (\<lambda>selected_account w.
             then_run (py_getitem selected_account ''token'', w) (\<lambda>token w.
             then_run (py_getitem selected_account ''address'', w) (\<lambda>a w.
               (Inr (Some token), print [Lit (CHR 0x0A # ''Using account: ''), Val a] w)))))))))))"

text \<open>The loop \<^verbatim>\<open>for msg in messages\<close>.\<close>

fun print_messages :: "json list \<Rightarrow> world \<Rightarrow> (exn + unit) \<times> world" where
  "print_messages [] w = (Inr (), w)"
| "print_messages (msg # rest) w =
     then_run (print_value ''Message ID: '' (py_getitem msg ''id'') w) (\<lambda>_ w.
     then_run (print_value ''From: ''
                 (and_then (py_getitem msg ''from'') (\<lambda>f. py_getitem f ''address'')) w) (\<lambda>_ w.
     then_run (print_value ''Subject: '' (py_getitem msg ''subject'') w) (\<lambda>_ w.
     then_run (print_value ''Intro: '' (py_getitem msg ''intro'') w) (\<lambda>_ w.
     print_messages rest (print dashes w)))))"

definition print_message_content :: "json \<Rightarrow> world \<Rightarrow> (exn + unit) \<times> world" where
  "print_message_content message_content w =
     then_run (print_value ''From: ''
                 (and_then (py_getitem message_content ''from'') (\<lambda>f. py_getitem f ''address''))
                 (print [Lit (CHR 0x0A # ''--- Message Content ---'')] w)) (\<lambda>_ w.
     then_run (print_value ''To: ''
                 (and_then (py_getitem message_content ''to'') (\<lambda>tos.
                  and_then (py_iter tos) (\<lambda>ts.
                  and_then (collect (\<lambda>to. py_getitem to ''address'') ts) (\<lambda>as.
                  Inr (JArr as))))) w) (\<lambda>_ w.
     then_run (print_value ''Subject: '' (py_getitem message_content ''subject'') w) (\<lambda>_ w.
     then_run (print_value (''Text Body:'' @ [CHR 0x0A]) (py_getitem message_content ''text'') w) (\<lambda>_ w.
     (Inr (), print dashes w)))))"

text \<open>
  The message section, entered with the variable \<^verbatim>\<open>token\<close> assigned:
  \<^verbatim>\<open>if 'token' in locals() and token: ...\<close>. The second test \<^verbatim>\<open>if messages:\<close>, after the
  loop, stands inside the first one and is always passed. The closing \<^verbatim>\<open>del token\<close> unbinds a
  variable that every path to this section assigns anew.
\<close>

definition check_messages :: "string \<Rightarrow> json \<Rightarrow> world \<Rightarrow> (exn + unit) \<times> world" where
  "check_messages base_url token w =
     (if \<not> truthy token then (Inr (), w)
      else
      then_run (get_messages base_url token
                  (print [Lit (CHR 0x0A # ''Checking for new messages...'')] w)) (\<lambda>messages w.
        if messages \<noteq> JNull
        then if truthy messages
             then
               then_run (py_iter messages, print [Lit (CHR 0x0A # ''--- Messages ---'')] w) (\<lambda>msgs w.
               then_run (print_messages msgs w) (\<lambda>_ w.
               then_run (py_input [Lit ''Enter Message ID to view full content (or press Enter to skip): ''] w)
                 (\<lambda>answer w.
                 (let view_message = strip answer
                  in if view_message \<noteq> []
                     then then_run (get_message_content base_url token view_message w)
                            (\<lambda>message_content w.
                               if truthy message_content
                               then print_message_content message_content w
                               else (Inr (), print [Lit ''Failed to retrieve full message content.''] w))
                     else (Inr (), w)))))
             else (Inr (), print [Lit ''No messages found in your inbox yet.''] w)
        else (Inr (), print [Lit ''Failed to retrieve message list.''] w)))"

text \<open>One pass of the loop body for the choice 2, after the menu has been answered.\<close>

definition use_existing_account :: "string \<Rightarrow> string \<Rightarrow> world \<Rightarrow> (exn + unit) \<times> world" where
  "use_existing_account base_url accounts_filename w =
     then_run (select_existing_account accounts_filename w) (\<lambda>selection w.
       case selection of
         None \<Rightarrow> (Inr (), w)
       | Some token \<Rightarrow> check_messages base_url token w)"

section \<open>Runs of the store and what a step leaves alone\<close>

text \<open>The records \<open>rs\<close> appended one after the other, each by \<open>save_account_to_json\<close>.\<close>

fun save_all :: "json list \<Rightarrow> string \<Rightarrow> world \<Rightarrow> world" where
  "save_all [] filename w = w"
| "save_all (r # rs) filename w = save_all rs filename (snd (save_account_to_json r filename w))"

text \<open>A step that neither writes a file nor sends a request.\<close>

definition untouched :: "world \<Rightarrow> world \<Rightarrow> bool" where
  "untouched w w' = (files w' = files w \<and> writes w' = writes w \<and> sent w' = sent w)"

text \<open>A step that writes no file and sends nothing but GET requests.\<close>

definition reads_only :: "world \<Rightarrow> world \<Rightarrow> bool" where
  "reads_only w w' =
     (files w' = files w \<and> writes w' = writes w
      \<and> (\<exists>new. sent w' = sent w @ new \<and> list_all (\<lambda>rq. verb rq = GET) new))"

section \<open>Concrete worlds\<close>

definition default_base_url :: string where
  "default_base_url = ''https://api.mail.tm''"

definition accounts_filename :: string where
  "accounts_filename = ''mailtm_accounts.json''"

text \<open>No file, no network, nothing typed, every write succeeds.\<close>

definition blank :: world where
  "blank = \<lparr>files = (\<lambda>_. Absent), disk = (\<lambda>_. WriteOk), writes = 0, net = (\<lambda>_. NoResponse),
             sent = [], stdin = [], stdout = []\<rparr>"

text \<open>A server that answers the first requests with the given responses, in order.\<close>

definition replies :: "response list \<Rightarrow> nat \<Rightarrow> http_result" where
  "replies rs k = (if k < length rs then Responds (rs ! k) else NoResponse)"

text \<open>Three account records as \<open>create_account\<close> returns them; the second has lost its token.\<close>

definition alice :: json where
  "alice = JObj [(''id'', JStr ''a1''), (''address'', JStr ''alice@example.com''), (''token'', JStr ''ta'')]"

definition bob :: json where
  "bob = JObj [(''id'', JStr ''b2''), (''address'', JStr ''bob@example.com'')]"

definition carol :: json where
  "carol = JObj [(''id'', JStr ''c3''), (''address'', JStr ''carol@example.com''), (''token'', JStr ''tc'')]"

text \<open>The account is created; the token endpoint answers with the given token.\<close>

definition signup :: "json \<Rightarrow> world" where
  "signup t = blank\<lparr>net := replies
     [\<lparr>status_code = 201,
        body = Some (JObj [(''id'', JStr ''x9''), (''address'', JStr ''abc123xyz9@example.com'')])\<rparr>,
      \<lparr>status_code = 200, body = Some (JObj [(''token'', t)])\<rparr>]\<rparr>"

text \<open>A server whose only answer is a response with the given status and body.\<close>

definition answering :: "nat \<Rightarrow> json option \<Rightarrow> world" where
  "answering s b = blank\<lparr>net := replies [\<lparr>status_code = s, body = b\<rparr>]\<rparr>"

text \<open>The first write succeeds, every later one fails after the file has been opened.\<close>

definition failing_disk :: world where
  "failing_disk = blank\<lparr>disk := (\<lambda>k. if k = 0 then WriteOk else FailsPartway)\<rparr>"

text \<open>The first write succeeds, every later one fails when the file is opened.\<close>

definition refusing_disk :: world where
  "refusing_disk = blank\<lparr>disk := (\<lambda>k. if k = 0 then WriteOk else OpenFails)\<rparr>"

text \<open>
  Three stored accounts, the user types 2, and the token endpoint would grant a token if it
  were asked.
\<close>

definition three_stored :: world where
  "three_stored = blank\<lparr>
     files := (\<lambda>_. Absent)(accounts_filename := Holds (Dumped (JArr [alice, bob, carol]))),
     net := replies [\<lparr>status_code = 200, body = Some (JObj [(''token'', JStr ''fresh'')])\<rparr>],
     stdin := [''2'']\<rparr>"

section \<open>Properties of the generators\<close>

lemma random_choice_mem: "seq \<noteq> [] \<Longrightarrow> random_choice seq r \<in> set seq"
  by (simp add: random_choice_def)

lemma password_alphabet_nonempty: "ascii_letters @ digits @ punctuation \<noteq> []"
  by (simp add: ascii_letters_def ascii_lowercase_def)

text \<open>
  C10: for every requested length and every run of the random generator,
  \<open>generate_strong_password\<close> returns a string made only of ASCII letters, digits and
  punctuation; its length is the requested one when that is at least 8, and exactly 8 when a
  smaller length is requested.
\<close>

theorem generate_strong_password_spec:
  "set (generate_strong_password rnd len) \<subseteq> set ascii_letters \<union> set digits \<union> set punctuation
   \<and> int (length (generate_strong_password rnd len)) = (if len < 8 then 8 else len)"
proof -
  have "random_choice (ascii_letters @ digits @ punctuation) r
          \<in> set ascii_letters \<union> set digits \<union> set punctuation" for r
    using random_choice_mem [OF password_alphabet_nonempty, of r] by auto
  then show ?thesis
    by (auto simp: generate_strong_password_def Let_def)
qed

section \<open>Properties of the remote client\<close>

lemmas client_defs =
  requests_post_def requests_get_def send_def and_then_def raise_for_status_def
  response_json_def print_def Let_def

lemmas world_defs = blank_def replies_def signup_def answering_def default_base_url_def

lemma no_response_escapes:
  assumes "net w (length (sent w)) = NoResponse"
  shows "fst (create_account b u p d w) = Inl (UnboundLocalError ''response'')"
    and "fst (get_messages b tok w) = Inl (UnboundLocalError ''response'')"
    and "fst (get_message_content b tok mid w) = Inl (UnboundLocalError ''response'')"
    and "fst (get_domains b w) = Inr JNull"
    and "fst (get_token b a p w) = Inr JNull"
  using assms
  by (simp_all add: create_account_def get_messages_def get_message_content_def get_domains_def
        get_token_def client_defs)

text \<open>
  C1: with the server unreachable (the request raises, no response object exists),
  \<open>create_account\<close>, \<open>get_messages\<close> and \<open>get_message_content\<close> do not return
  \<^verbatim>\<open>None\<close>: the handler's read of \<^verbatim>\<open>response.status_code\<close> raises
  \<^verbatim>\<open>UnboundLocalError\<close>, which reaches the caller.
\<close>

theorem connection_failure_escapes:
  "fst (create_account default_base_url ''abc123xyz9'' ''pw'' ''example.com'' blank)
     = Inl (UnboundLocalError ''response'')
   \<and> fst (get_messages default_base_url (JStr ''tok'') blank) = Inl (UnboundLocalError ''response'')
   \<and> fst (get_message_content default_base_url (JStr ''tok'') ''m1'' blank)
     = Inl (UnboundLocalError ''response'')"
  by (simp add: create_account_def get_messages_def get_message_content_def client_defs blank_def)

lemma py_setitem_Inr:
  "py_setitem x k v = Inr y \<Longrightarrow> \<exists>kvs. x = JObj kvs \<and> y = JObj (AList.update k v kvs)"
  by (cases x) auto

lemma get_token_Inr:
  assumes "get_token b a p w = (Inr tr, w2)" and "tr \<noteq> JNull"
  shows "\<exists>resp. net w (length (sent w)) = Responds resp \<and> body resp = Some tr"
  using assms
  by (auto simp: get_token_def client_defs
           split: sum.splits http_result.splits if_splits option.splits)

text \<open>
  C2, as stated, fails: when the token endpoint answers \<^verbatim>\<open>{"token": ""}\<close>, \<open>create_account\<close>
  returns a record whose token is the empty string.
\<close>

theorem create_account_empty_token:
  "fst (create_account default_base_url ''abc123xyz9'' ''pw'' ''example.com'' (signup (JStr '''')))
     = Inr (JObj [(''id'', JStr ''x9''), (''address'', JStr ''abc123xyz9@example.com''),
                  (''token'', JStr '''')])"
  by (simp add: create_account_def get_token_def client_defs world_defs)

text \<open>
  C2, amended: whenever \<open>create_account\<close> returns a record (a value other than \<^verbatim>\<open>None\<close>), the
  record's address is \<open>username @ ''@'' @ domain\<close> and its token field is present and holds the
  value of the \<^verbatim>\<open>token\<close> field of the token endpoint's answer, whatever that value is; no
  record without a token field is returned.
\<close>

theorem create_account_record:
  assumes "create_account b u p d w = (Inr r, w')" and "r \<noteq> JNull"
  shows "py_getitem r ''address'' = Inr (JStr (u @ ''@'' @ d)) \<and>
    (\<exists>resp tr t. net w (Suc (length (sent w))) = Responds resp \<and> body resp = Some tr \<and>
        py_getitem tr ''token'' = Inr t \<and> py_getitem r ''token'' = Inr t)"
proof -
  define w1 where "w1 = snd (requests_post (b @ ''/accounts'')
      [(''Content-Type'', [Lit ''application/json''])]
      (JObj [(''address'', JStr (u @ ''@'' @ d)), (''password'', JStr p)]) w)"
  have len: "length (sent w1) = Suc (length (sent w))"
    by (simp add: w1_def requests_post_def send_def)
  have net: "net w1 = net w"
    by (simp add: w1_def requests_post_def send_def)
  from assms obtain acct tr t a w2 where
    tok: "get_token b (u @ ''@'' @ d) p w1 = (Inr tr, w2)" and tr: "truthy tr"
    and t: "py_getitem tr ''token'' = Inr t"
    and a: "py_setitem acct ''token'' t = Inr a"
    and r: "py_setitem a ''address'' (JStr (u @ ''@'' @ d)) = Inr r"
    unfolding create_account_def w1_def
    by (auto simp: Let_def and_then_def split: prod.splits sum.splits if_splits bool.splits)
  from tr have "tr \<noteq> JNull" by auto
  from get_token_Inr [OF tok this] len net obtain resp where
    "net w (Suc (length (sent w))) = Responds resp" "body resp = Some tr" by auto
  moreover from a r have "py_getitem r ''address'' = Inr (JStr (u @ ''@'' @ d))"
    and "py_getitem r ''token'' = Inr t"
    by (auto dest!: py_setitem_Inr simp: update_conv')
  ultimately show ?thesis using t by blast
qed

theorem create_account_record_witness:
  "fst (create_account default_base_url ''abc123xyz9'' ''pw'' ''example.com'' (signup (JStr ''t0k'')))
     = Inr (JObj [(''id'', JStr ''x9''), (''address'', JStr ''abc123xyz9@example.com''),
                  (''token'', JStr ''t0k'')])
   \<and> py_getitem (JObj [(''id'', JStr ''x9''), (''address'', JStr ''abc123xyz9@example.com''),
                  (''token'', JStr ''t0k'')]) ''address'' = Inr (JStr (''abc123xyz9'' @ ''@'' @ ''example.com''))
   \<and> (\<exists>resp tr t. net (signup (JStr ''t0k'')) (Suc (length (sent (signup (JStr ''t0k''))))) = Responds resp
         \<and> body resp = Some tr \<and> py_getitem tr ''token'' = Inr t
         \<and> py_getitem (JObj [(''id'', JStr ''x9''), (''address'', JStr ''abc123xyz9@example.com''),
                  (''token'', JStr ''t0k'')]) ''token'' = Inr t)"
proof -
  let ?w = "signup (JStr ''t0k'')"
  let ?r = "JObj [(''id'', JStr ''x9''), (''address'', JStr ''abc123xyz9@example.com''),
                  (''token'', JStr ''t0k'')]"
  let ?c = "create_account default_base_url ''abc123xyz9'' ''pw'' ''example.com'' ?w"
  have f: "fst ?c = Inr ?r"
    by (simp add: create_account_def get_token_def client_defs world_defs)
  then have e: "?c = (Inr ?r, snd ?c)"
    by (simp add: prod_eq_iff)
  have n: "?r \<noteq> JNull" by simp
  from create_account_record [OF e n] f show ?thesis by simp
qed

text \<open>
  C6, as stated, fails: for an invalidated token (401) and for a server error (503)
  \<open>get_messages\<close> hands the caller the same value, \<^verbatim>\<open>None\<close>.
\<close>

theorem auth_failure_indistinguishable:
  "fst (get_messages default_base_url (JStr ''stale'') (answering 401 None)) = Inr JNull
   \<and> fst (get_messages default_base_url (JStr ''stale'') (answering 503 None)) = Inr JNull"
  by (simp add: get_messages_def client_defs world_defs)

text \<open>
  C6, amended: for every HTTP error status (400 to 599), 401 included, \<open>get_messages\<close> returns
  \<^verbatim>\<open>None\<close> after printing the error; for 401 it prints one more line,
  \<^verbatim>\<open>Authentication failed. Invalid token.\<close> The caller receives no failure kind.
\<close>

theorem get_messages_http_error:
  assumes "net w (length (sent w)) = Responds resp"
    and "400 \<le> status_code resp" and "status_code resp < 600"
  shows "fst (get_messages b tok w) = Inr JNull \<and>
         stdout (snd (get_messages b tok w)) =
           stdout w @ [[Lit ''Error fetching messages: '', Exc (HTTPError (status_code resp))]]
             @ (if status_code resp = 401 then [[Lit ''Authentication failed. Invalid token.'']]
                else [])"
  using assms by (simp add: get_messages_def client_defs)

theorem get_messages_http_error_witness:
  "fst (get_messages default_base_url (JStr ''stale'') (answering 401 None)) = Inr JNull
   \<and> stdout (snd (get_messages default_base_url (JStr ''stale'') (answering 401 None))) =
       [[Lit ''Error fetching messages: '', Exc (HTTPError 401)],
        [Lit ''Authentication failed. Invalid token.'']]"
proof -
  let ?w = "answering 401 None"
  have n: "net ?w (length (sent ?w)) = Responds \<lparr>status_code = 401, body = None\<rparr>"
    by (simp add: world_defs)
  from get_messages_http_error [OF n, of default_base_url "JStr ''stale''"]
  show ?thesis by (simp add: world_defs)
qed








section \<open>Properties of the credential store\<close>

lemmas store_defs =
  load_accounts_from_json_def save_account_to_json_def write_json_def os_path_exists_def
  print_def Let_def

lemma load_Dumped:
  "files w fn = Holds (Dumped j) \<Longrightarrow> load_accounts_from_json fn w = (Inr j, w)"
  by (simp add: load_accounts_from_json_def os_path_exists_def)

lemma load_frame:
  "files (snd (load_accounts_from_json fn w)) = files w"
  "disk (snd (load_accounts_from_json fn w)) = disk w"
  "writes (snd (load_accounts_from_json fn w)) = writes w"
  by (auto simp: load_accounts_from_json_def print_def split: sum.splits)

lemma load_depends_on_file:
  "files w' fn = files w fn \<Longrightarrow>
     fst (load_accounts_from_json fn w') = fst (load_accounts_from_json fn w)"
  by (auto simp: load_accounts_from_json_def split: sum.splits)

text \<open>
  C3: \<open>load_accounts_from_json\<close> never raises, whatever the file is; and whenever the file is
  not a complete JSON document (it does not exist, is empty, is malformed or truncated, or
  cannot be opened) it returns the empty list, prints at most one line and leaves the files
  as they are.
\<close>

theorem load_tolerates_bad_storage:
  "(\<exists>v. fst (load_accounts_from_json filename w) = Inr v)
   \<and> ((\<forall>j. files w filename \<noteq> Holds (Dumped j)) \<longrightarrow>
        fst (load_accounts_from_json filename w) = Inr (JArr [])
        \<and> (\<exists>warning. stdout (snd (load_accounts_from_json filename w)) = stdout w @ warning
                      \<and> length warning \<le> 1)
        \<and> files (snd (load_accounts_from_json filename w)) = files w)"
  by (cases "files w filename" rule: read_json.cases)
     (auto simp: load_accounts_from_json_def os_path_exists_def print_def)

theorem load_tolerates_bad_storage_witness:
  "fst (load_accounts_from_json accounts_filename blank) = Inr (JArr [])
   \<and> fst (load_accounts_from_json accounts_filename (blank\<lparr>files := (\<lambda>_. Holds EmptyText)\<rparr>))
       = Inr (JArr [])
   \<and> fst (load_accounts_from_json accounts_filename (blank\<lparr>files := (\<lambda>_. Holds Malformed)\<rparr>))
       = Inr (JArr [])"
proof -
  have a: "\<forall>j. files blank accounts_filename \<noteq> Holds (Dumped j)"
    by (simp add: blank_def)
  have b: "\<forall>j. files (blank\<lparr>files := (\<lambda>_. Holds EmptyText)\<rparr>) accounts_filename \<noteq> Holds (Dumped j)"
    by simp
  have c: "\<forall>j. files (blank\<lparr>files := (\<lambda>_. Holds Malformed)\<rparr>) accounts_filename \<noteq> Holds (Dumped j)"
    by simp
  from load_tolerates_bad_storage [of accounts_filename blank] a
    load_tolerates_bad_storage [of accounts_filename "blank\<lparr>files := (\<lambda>_. Holds EmptyText)\<rparr>"] b
    load_tolerates_bad_storage [of accounts_filename "blank\<lparr>files := (\<lambda>_. Holds Malformed)\<rparr>"] c
  show ?thesis by blast
qed

lemma load_not_Dumped:
  assumes "\<forall>j. files w fn \<noteq> Holds (Dumped j)"
  shows "fst (load_accounts_from_json fn w) = Inr (JArr [])"
  using assms
  by (cases "files w fn" rule: read_json.cases)
     (auto simp: load_accounts_from_json_def os_path_exists_def)

lemma save_ok:
  assumes "fst (load_accounts_from_json fn w) = Inr (JArr xs)"
    and "files w fn \<noteq> Unopenable" and "disk w (writes w) = WriteOk"
  shows "fst (save_account_to_json r fn w) = Inr ()"
    and "files (snd (save_account_to_json r fn w)) = (files w)(fn := Holds (Dumped (JArr (xs @ [r]))))"
    and "disk (snd (save_account_to_json r fn w)) = disk w"
    and "writes (snd (save_account_to_json r fn w)) = Suc (writes w)"
  using assms load_frame [of fn w]
  by (auto simp: save_account_to_json_def write_json_def print_def Let_def
           split: prod.splits sum.splits)

lemma save_all_loads:
  assumes "fst (load_accounts_from_json fn w) = Inr (JArr xs)"
    and "files w fn \<noteq> Unopenable"
    and "\<forall>k. writes w \<le> k \<and> k < writes w + length rs \<longrightarrow> disk w k = WriteOk"
  shows "fst (load_accounts_from_json fn (save_all rs fn w)) = Inr (JArr (xs @ rs))
     \<and> files (save_all rs fn w) fn \<noteq> Unopenable
     \<and> disk (save_all rs fn w) = disk w \<and> writes (save_all rs fn w) = writes w + length rs"
  using assms
proof (induction rs arbitrary: w xs)
  case Nil
  then show ?case by simp
next
  case (Cons r rs)
  let ?w = "snd (save_account_to_json r fn w)"
  have ok: "disk w (writes w) = WriteOk"
    using Cons.prems(3) by simp
  note s = save_ok [OF Cons.prems(1) Cons.prems(2) ok, of r]
  have l: "fst (load_accounts_from_json fn ?w) = Inr (JArr (xs @ [r]))"
    using s(2) by (simp add: load_Dumped)
  have u: "files ?w fn \<noteq> Unopenable"
    using s(2) by simp
  have d: "\<forall>k. writes ?w \<le> k \<and> k < writes ?w + length rs \<longrightarrow> disk ?w k = WriteOk"
    using Cons.prems(3) s(3,4) by simp
  from Cons.IH [OF l u d] s(3,4) show ?case by simp
qed

text \<open>
  C4: start from a store that loads as empty (no file, or an empty or corrupt one) and append
  the records \<open>rs\<close> one after the other, every write succeeding. The store then loads as
  \<open>rs\<close>; and after one more successful \<open>save_account_to_json r\<close> it loads as \<open>rs @ [r]\<close>:
  the last element is the appended record, the earlier ones are the previous records,
  unchanged and in order.
\<close>

theorem append_then_load:
  assumes "files w0 fn \<noteq> Unopenable" and "\<forall>j. files w0 fn \<noteq> Holds (Dumped j)"
    and "\<forall>k. writes w0 \<le> k \<and> k \<le> writes w0 + length rs \<longrightarrow> disk w0 k = WriteOk"
  shows "fst (load_accounts_from_json fn (save_all rs fn w0)) = Inr (JArr rs)
     \<and> fst (load_accounts_from_json fn
              (snd (save_account_to_json r fn (save_all rs fn w0)))) = Inr (JArr (rs @ [r]))"
proof -
  have l0: "fst (load_accounts_from_json fn w0) = Inr (JArr [])"
    using assms(2) by (rule load_not_Dumped)
  have d: "\<forall>k. writes w0 \<le> k \<and> k < writes w0 + length rs \<longrightarrow> disk w0 k = WriteOk"
    using assms(3) by simp
  note a = save_all_loads [OF l0 assms(1) d]
  then have l: "fst (load_accounts_from_json fn (save_all rs fn w0)) = Inr (JArr rs)"
    by simp
  have ok: "disk (save_all rs fn w0) (writes (save_all rs fn w0)) = WriteOk"
    using a assms(3) by simp
  from a have u: "files (save_all rs fn w0) fn \<noteq> Unopenable"
    by simp
  note s = save_ok [OF l u ok, of r]
  from s(2) have "fst (load_accounts_from_json fn
      (snd (save_account_to_json r fn (save_all rs fn w0)))) = Inr (JArr (rs @ [r]))"
    by (simp add: load_Dumped)
  with l show ?thesis by simp
qed

theorem append_then_load_witness:
  "fst (load_accounts_from_json accounts_filename (save_all [alice, bob] accounts_filename blank))
     = Inr (JArr [alice, bob])
   \<and> fst (load_accounts_from_json accounts_filename
            (snd (save_account_to_json carol accounts_filename
                    (save_all [alice, bob] accounts_filename blank))))
     = Inr (JArr [alice, bob, carol])"
proof -
  have a: "files blank accounts_filename \<noteq> Unopenable"
    by (simp add: blank_def)
  have b: "\<forall>j. files blank accounts_filename \<noteq> Holds (Dumped j)"
    by (simp add: blank_def)
  have c: "\<forall>k. writes blank \<le> k \<and> k \<le> writes blank + length [alice, bob] \<longrightarrow> disk blank k = WriteOk"
    by (simp add: blank_def)
  from append_then_load [OF a b c, of carol] show ?thesis by simp
qed

text \<open>
  C5, as stated, fails: one record is stored; the write of the second append fails after the
  file has been opened; the next load returns the empty list, and the first record is lost.
\<close>

theorem failed_write_loses_records:
  "fst (load_accounts_from_json accounts_filename
          (snd (save_account_to_json alice accounts_filename failing_disk))) = Inr (JArr [alice])
   \<and> fst (load_accounts_from_json accounts_filename
            (snd (save_account_to_json carol accounts_filename
                    (snd (save_account_to_json alice accounts_filename failing_disk)))))
       = Inr (JArr [])"
  by (simp add: store_defs failing_disk_def blank_def)

text \<open>
  C5, amended: a failed write is caught; \<open>save_account_to_json\<close> prints an error and returns
  normally. If the failure occurs when the file is opened, the files are unchanged and the
  next load returns the previously persisted records. If it occurs after the file has been
  opened for writing, the file is left truncated and the next load returns the empty list
  with a warning: the previously persisted records are lost together with the appended one.
\<close>

theorem failed_write_outcomes:
  assumes "fst (load_accounts_from_json fn w) = Inr (JArr xs)"
  shows "(files w fn = Unopenable \<or> disk w (writes w) = OpenFails \<longrightarrow>
            fst (save_account_to_json r fn w) = Inr ()
            \<and> stdout (snd (save_account_to_json r fn w)) =
                stdout (snd (load_accounts_from_json fn w))
                @ [[Lit ''Error saving account to JSON: '', Exc OSError]]
            \<and> files (snd (save_account_to_json r fn w)) = files w
            \<and> fst (load_accounts_from_json fn (snd (save_account_to_json r fn w))) = Inr (JArr xs))
       \<and> (files w fn \<noteq> Unopenable \<and> disk w (writes w) = FailsPartway \<longrightarrow>
            fst (save_account_to_json r fn w) = Inr ()
            \<and> stdout (snd (save_account_to_json r fn w)) =
                stdout (snd (load_accounts_from_json fn w))
                @ [[Lit ''Error saving account to JSON: '', Exc OSError]]
            \<and> files (snd (save_account_to_json r fn w)) fn = Holds (Truncated (JArr (xs @ [r])))
            \<and> fst (load_accounts_from_json fn (snd (save_account_to_json r fn w))) = Inr (JArr [])
            \<and> stdout (snd (load_accounts_from_json fn (snd (save_account_to_json r fn w)))) =
                stdout (snd (save_account_to_json r fn w))
                @ [[Lit ''Warning: JSON file is empty or corrupted. Returning empty account list.'']])"
proof -
  let ?w = "snd (save_account_to_json r fn w)"
  let ?err = "[[Lit ''Error saving account to JSON: '', Exc OSError]]"
  obtain w1 where l: "load_accounts_from_json fn w = (Inr (JArr xs), w1)"
    using assms by (cases "load_accounts_from_json fn w") simp
  from load_frame [of fn w] l
  have fr: "files w1 = files w" "disk w1 = disk w" "writes w1 = writes w"
    by simp_all
  have open_fails: "fst (save_account_to_json r fn w) = Inr () \<and> files ?w = files w
                    \<and> stdout ?w = stdout w1 @ ?err"
    if "files w fn = Unopenable \<or> disk w (writes w) = OpenFails"
    using that l fr
    by (auto simp: save_account_to_json_def write_json_def print_def Let_def)
  have partway: "fst (save_account_to_json r fn w) = Inr ()
                 \<and> files ?w fn = Holds (Truncated (JArr (xs @ [r])))
                 \<and> stdout ?w = stdout w1 @ ?err"
    if "files w fn \<noteq> Unopenable \<and> disk w (writes w) = FailsPartway"
    using that l fr
    by (auto simp: save_account_to_json_def write_json_def print_def Let_def)
  have same: "fst (load_accounts_from_json fn ?w) = Inr (JArr xs)" if "files ?w = files w"
    using load_depends_on_file [of ?w fn w] that assms by simp
  have lost: "fst (load_accounts_from_json fn ?w) = Inr (JArr [])
              \<and> stdout (snd (load_accounts_from_json fn ?w)) = stdout ?w
                  @ [[Lit ''Warning: JSON file is empty or corrupted. Returning empty account list.'']]"
    if "files ?w fn = Holds (Truncated (JArr (xs @ [r])))"
    using that by (simp add: load_accounts_from_json_def os_path_exists_def print_def)
  from l have w1: "stdout (snd (load_accounts_from_json fn w)) = stdout w1"
    by simp
  from open_fails partway same lost show ?thesis
    unfolding w1 by blast
qed

theorem failed_write_outcomes_witness:
  "fst (save_account_to_json carol accounts_filename
          (snd (save_account_to_json alice accounts_filename failing_disk))) = Inr ()
   \<and> stdout (snd (save_account_to_json carol accounts_filename
                    (snd (save_account_to_json alice accounts_filename failing_disk)))) =
        [[Lit ''Account saved to '', Lit accounts_filename],
         [Lit ''Error saving account to JSON: '', Exc OSError]]
   \<and> files (snd (save_account_to_json carol accounts_filename
                   (snd (save_account_to_json alice accounts_filename failing_disk))))
        accounts_filename = Holds (Truncated (JArr [alice, carol]))
   \<and> fst (load_accounts_from_json accounts_filename
            (snd (save_account_to_json carol accounts_filename
                    (snd (save_account_to_json alice accounts_filename failing_disk)))))
        = Inr (JArr [])
   \<and> stdout (snd (load_accounts_from_json accounts_filename
            (snd (save_account_to_json carol accounts_filename
                    (snd (save_account_to_json alice accounts_filename failing_disk)))))) =
        [[Lit ''Account saved to '', Lit accounts_filename],
         [Lit ''Error saving account to JSON: '', Exc OSError],
         [Lit ''Warning: JSON file is empty or corrupted. Returning empty account list.'']]
   \<and> fst (save_account_to_json carol accounts_filename
            (snd (save_account_to_json alice accounts_filename refusing_disk))) = Inr ()
   \<and> stdout (snd (save_account_to_json carol accounts_filename
                    (snd (save_account_to_json alice accounts_filename refusing_disk)))) =
        [[Lit ''Account saved to '', Lit accounts_filename],
         [Lit ''Error saving account to JSON: '', Exc OSError]]
   \<and> fst (load_accounts_from_json accounts_filename
            (snd (save_account_to_json carol accounts_filename
                    (snd (save_account_to_json alice accounts_filename refusing_disk)))))
        = Inr (JArr [alice])"
proof -
  let ?w = "snd (save_account_to_json alice accounts_filename failing_disk)"
  let ?v = "snd (save_account_to_json alice accounts_filename refusing_disk)"
  have w: "load_accounts_from_json accounts_filename ?w = (Inr (JArr [alice]), ?w)"
    and sw: "stdout ?w = [[Lit ''Account saved to '', Lit accounts_filename]]"
    and pw: "files ?w accounts_filename \<noteq> Unopenable \<and> disk ?w (writes ?w) = FailsPartway"
    by (simp_all add: store_defs failing_disk_def blank_def)
  have v: "load_accounts_from_json accounts_filename ?v = (Inr (JArr [alice]), ?v)"
    and sv: "stdout ?v = [[Lit ''Account saved to '', Lit accounts_filename]]"
    and pv: "files ?v accounts_filename = Unopenable \<or> disk ?v (writes ?v) = OpenFails"
    by (simp_all add: store_defs refusing_disk_def blank_def)
  from w have lw: "fst (load_accounts_from_json accounts_filename ?w) = Inr (JArr [alice])"
    by simp
  from v have lv: "fst (load_accounts_from_json accounts_filename ?v) = Inr (JArr [alice])"
    by simp
  from failed_write_outcomes [OF lw, of carol] pw
  have 1: "fst (save_account_to_json carol accounts_filename ?w) = Inr ()
     \<and> stdout (snd (save_account_to_json carol accounts_filename ?w)) =
         stdout (snd (load_accounts_from_json accounts_filename ?w))
         @ [[Lit ''Error saving account to JSON: '', Exc OSError]]
     \<and> files (snd (save_account_to_json carol accounts_filename ?w)) accounts_filename
         = Holds (Truncated (JArr ([alice] @ [carol])))
     \<and> fst (load_accounts_from_json accounts_filename
              (snd (save_account_to_json carol accounts_filename ?w))) = Inr (JArr [])
     \<and> stdout (snd (load_accounts_from_json accounts_filename
              (snd (save_account_to_json carol accounts_filename ?w)))) =
         stdout (snd (save_account_to_json carol accounts_filename ?w))
         @ [[Lit ''Warning: JSON file is empty or corrupted. Returning empty account list.'']]"
    by blast
  from failed_write_outcomes [OF lv, of carol] pv
  have 2: "fst (save_account_to_json carol accounts_filename ?v) = Inr ()
     \<and> stdout (snd (save_account_to_json carol accounts_filename ?v)) =
         stdout (snd (load_accounts_from_json accounts_filename ?v))
         @ [[Lit ''Error saving account to JSON: '', Exc OSError]]
     \<and> fst (load_accounts_from_json accounts_filename
              (snd (save_account_to_json carol accounts_filename ?v))) = Inr (JArr [alice])"
    by blast
  from 1 2 show ?thesis
    unfolding w v by (simp add: sw sv)
qed

section \<open>Properties of the use of a stored account\<close>

lemma untouched_refl: "untouched w w"
  by (simp add: untouched_def)

lemma untouched_trans: "untouched w w1 \<Longrightarrow> untouched w1 w2 \<Longrightarrow> untouched w w2"
  by (simp add: untouched_def)

lemma untouched_print: "untouched w (print l w)"
  by (simp add: untouched_def print_def)

lemma untouched_reads: "untouched w w' \<Longrightarrow> reads_only w w'"
  by (auto simp: untouched_def reads_only_def)

lemma reads_only_refl: "reads_only w w"
  by (simp add: reads_only_def)

lemma reads_only_trans: "reads_only w w1 \<Longrightarrow> reads_only w1 w2 \<Longrightarrow> reads_only w w2"
  by (auto simp: reads_only_def)

lemma reads_only_print: "reads_only w (print l w)"
  by (simp add: reads_only_def print_def)

lemma untouched_if:
  "(c \<Longrightarrow> untouched w (snd a)) \<Longrightarrow> (\<not> c \<Longrightarrow> untouched w (snd b))
     \<Longrightarrow> untouched w (snd (if c then a else b))"
  by simp

lemma untouched_pair: "untouched w w' \<Longrightarrow> untouched w (snd (x, w'))"
  by simp

lemma reads_only_if:
  "(c \<Longrightarrow> reads_only w (snd a)) \<Longrightarrow> (\<not> c \<Longrightarrow> reads_only w (snd b))
     \<Longrightarrow> reads_only w (snd (if c then a else b))"
  by simp

lemma reads_only_pair: "reads_only w w' \<Longrightarrow> reads_only w (snd (x, w'))"
  by simp

lemma then_run_untouched:
  assumes "untouched w (snd m)" and "\<And>x. untouched (snd m) (snd (f x (snd m)))"
  shows "untouched w (snd (then_run m f))"
  using assms
  by (cases m) (auto simp: then_run_def split: sum.splits intro: untouched_trans)

lemma then_run_reads_only:
  assumes "reads_only w (snd m)" and "\<And>x. reads_only (snd m) (snd (f x (snd m)))"
  shows "reads_only w (snd (then_run m f))"
  using assms
  by (cases m) (auto simp: then_run_def split: sum.splits intro: reads_only_trans)

lemma untouched_load: "untouched w (snd (load_accounts_from_json fn w))"
  by (auto simp: load_accounts_from_json_def untouched_refl untouched_print split: sum.splits)

lemma untouched_input: "untouched w (snd (py_input p w))"
  by (auto simp: py_input_def untouched_def print_def split: list.splits)

lemma untouched_print_value: "untouched w (snd (print_value l r w))"
  by (auto simp: print_value_def untouched_refl untouched_print split: sum.splits)

lemma untouched_print_accounts: "untouched w (snd (print_accounts i xs w))"
proof (induction xs arbitrary: i w)
  case Nil
  then show ?case by (simp add: untouched_refl)
next
  case (Cons a xs)
  show ?case
    by (auto simp: then_run_def untouched_refl split: sum.splits
             intro: untouched_trans [OF untouched_print Cons.IH])
qed

lemma untouched_print_messages: "untouched w (snd (print_messages xs w))"
proof (induction xs arbitrary: w)
  case Nil
  then show ?case by (simp add: untouched_refl)
next
  case (Cons a xs)
  show ?case
    unfolding print_messages.simps
    by (intro then_run_untouched untouched_print_value
          untouched_trans [OF untouched_print Cons.IH])
qed

lemma untouched_print_message_content: "untouched w (snd (print_message_content m w))"
  unfolding print_message_content_def
  by (intro then_run_untouched untouched_trans [OF untouched_print untouched_print_value]
        untouched_print_value untouched_pair untouched_print)

lemma untouched_select: "untouched w (snd (select_existing_account fn w))"
  unfolding select_existing_account_def Let_def
  by (intro then_run_untouched untouched_load untouched_if untouched_pair untouched_print
        untouched_print_accounts untouched_input untouched_refl)

lemma reads_only_get_messages: "reads_only w (snd (get_messages b tok w))"
  by (auto simp: get_messages_def requests_get_def send_def Let_def reads_only_def print_def
           split: sum.splits http_result.splits)

lemma reads_only_get_message_content: "reads_only w (snd (get_message_content b tok mid w))"
  by (auto simp: get_message_content_def requests_get_def send_def Let_def reads_only_def print_def
           split: sum.splits http_result.splits)

lemma reads_only_after_print: "reads_only (print l w) w' \<Longrightarrow> reads_only w w'"
  by (auto simp: reads_only_def print_def)

lemmas reads_only_rules =
  reads_only_if reads_only_pair reads_only_refl then_run_reads_only reads_only_print
  reads_only_get_message_content
  untouched_reads [OF untouched_print_messages] untouched_reads [OF untouched_input]
  untouched_reads [OF untouched_print_message_content]

lemma reads_only_check_messages: "reads_only w (snd (check_messages b tok w))"
  unfolding check_messages_def Let_def
  by (intro reads_only_rules reads_only_after_print [OF reads_only_get_messages])

lemma reads_only_use_existing: "reads_only w (snd (use_existing_account b fn w))"
  unfolding use_existing_account_def
  by (intro then_run_reads_only untouched_reads [OF untouched_select])
     (auto split: option.splits intro: reads_only_check_messages reads_only_refl)

lemma then_run_Inr:
  "fst (then_run m f) = Inr y \<longleftrightarrow> (\<exists>x. fst m = Inr x \<and> fst (f x (snd m)) = Inr y)"
  by (cases m) (auto simp: then_run_def split: sum.splits)

lemma stdin_print: "stdin (print l w) = stdin w"
  by (simp add: print_def)

lemma stdin_load: "stdin (snd (load_accounts_from_json fn w)) = stdin w"
  by (auto simp: load_accounts_from_json_def print_def split: sum.splits)

lemma stdin_print_accounts: "stdin (snd (print_accounts i xs w)) = stdin w"
  by (induction xs arbitrary: i w) (auto simp: then_run_def print_def split: sum.splits)

lemma py_input_Inr: "fst (py_input p w) = Inr l \<longleftrightarrow> (\<exists>ls. stdin w = l # ls)"
  by (auto simp: py_input_def split: list.splits)

lemma select_Some:
  assumes "fst (select_existing_account fn w) = Inr (Some tok)"
  shows "\<exists>existing l ls k rec. fst (load_accounts_from_json fn w) = Inr existing
           \<and> stdin w = l # ls \<and> py_int l = Inr k
           \<and> py_index existing (k - 1) = Inr rec \<and> py_getitem rec ''token'' = Inr tok"
  using assms unfolding select_existing_account_def Let_def
  by (auto simp: then_run_Inr py_input_Inr stdin_print stdin_load stdin_print_accounts
           split: if_splits)

lemma use_existing_no_request:
  assumes "fst (load_accounts_from_json fn w) = Inr existing" and "stdin w = l # ls"
    and "py_int l = Inr k" and "py_index existing (k - 1) = Inr rec"
    and "\<forall>tok. py_getitem rec ''token'' = Inr tok \<longrightarrow> \<not> truthy tok"
  shows "sent (snd (use_existing_account b fn w)) = sent w"
proof -
  obtain r w1 where s: "select_existing_account fn w = (r, w1)"
    by (cases "select_existing_account fn w")
  from untouched_select [of w fn] s have u: "sent w1 = sent w"
    by (simp add: untouched_def)
  show ?thesis
  proof (cases "\<exists>tok. r = Inr (Some tok)")
    case True
    then obtain tok where r: "r = Inr (Some tok)" by blast
    from select_Some [of fn w tok] s r assms have "\<not> truthy tok"
      by auto
    with s r u show ?thesis
      by (simp add: use_existing_account_def then_run_def check_messages_def)
  next
    case False
    with s u show ?thesis
      by (auto simp: use_existing_account_def then_run_def split: sum.splits option.splits)
  qed
qed

lemma print_accounts_ok:
  assumes "\<forall>a\<in>set xs. (\<exists>x. py_getitem a ''address'' = Inr x) \<and> (\<exists>y. py_getitem a ''id'' = Inr y)"
  shows "fst (print_accounts i xs w) = Inr ()"
  using assms
  by (induction xs arbitrary: i w) (auto simp: then_run_def)

lemma select_ok:
  assumes "files w fn = Holds (Dumped (JArr accs))"
    and "\<forall>a\<in>set accs. (\<exists>x. py_getitem a ''address'' = Inr x) \<and> (\<exists>y. py_getitem a ''id'' = Inr y)"
    and "stdin w = l # ls" and "py_int l = Inr k" and "1 \<le> k" and "k \<le> int (length accs)"
    and "py_getitem (accs ! nat (k - 1)) ''token'' = Inr tok"
  shows "fst (select_existing_account fn w) = Inr (Some tok)"
proof -
  from assms(5,6) have ne: "accs \<noteq> []" and pos: "position (length accs) (k - 1) = Some (nat (k - 1))"
    by (auto simp: position_def)
  from assms(5,6) have m: "accs ! nat (k - 1) \<in> set accs"
    by (intro nth_mem) auto
  with assms(2) obtain x where x: "py_getitem (accs ! nat (k - 1)) ''address'' = Inr x"
    by blast
  show ?thesis
    unfolding select_existing_account_def Let_def
    using assms(3-7) ne pos x
    by (simp add: then_run_Inr load_Dumped [OF assms(1)] print_accounts_ok [OF assms(2)]
          py_input_Inr stdin_print stdin_print_accounts)
qed

lemma sent_get_messages:
  "sent (snd (get_messages b tok w)) =
     sent w @ [\<lparr>verb = GET, url = b @ ''/messages'',
                headers = [(''Authorization'', [Lit ''Bearer '', Val tok])], payload = None\<rparr>]"
  by (auto simp: get_messages_def requests_get_def send_def Let_def print_def
           split: sum.splits http_result.splits)

lemma then_run_sent:
  assumes "sent (snd m) = s" and "\<And>x. reads_only (snd m) (snd (f x (snd m)))"
  shows "\<exists>more. sent (snd (then_run m f)) = s @ more"
proof (cases m)
  case (Pair r w1)
  show ?thesis
  proof (cases r)
    case (Inl e)
    with Pair assms(1) show ?thesis by (simp add: then_run_def)
  next
    case (Inr x)
    from assms(2) [of x] Pair have "reads_only w1 (snd (f x w1))" by simp
    with Pair Inr assms(1) show ?thesis by (auto simp: then_run_def reads_only_def)
  qed
qed

lemma check_messages_first_request:
  assumes "truthy tok"
  shows "\<exists>more. sent (snd (check_messages b tok w)) =
           (sent w @ [\<lparr>verb = GET, url = b @ ''/messages'',
                headers = [(''Authorization'', [Lit ''Bearer '', Val tok])], payload = None\<rparr>]) @ more"
  using assms unfolding check_messages_def Let_def
  apply (simp only: if_False if_True not_True_eq_False simp_thms)
  apply (rule then_run_sent)
   apply (simp add: sent_get_messages print_def)
  apply (intro reads_only_rules)
  done

text \<open>
  C8, as stated, fails: of three stored accounts the second has no token field and is
  selected; the token endpoint is ready to grant a token. No request is sent, so
  \<open>get_token\<close> is not called; the lookup of the token raises \<^verbatim>\<open>KeyError\<close>.
\<close>

theorem stored_record_without_token:
  "fst (use_existing_account default_base_url accounts_filename three_stored)
     = Inl (KeyError (JStr ''token''))
   \<and> sent (snd (use_existing_account default_base_url accounts_filename three_stored)) = []"
  by (simp add: use_existing_account_def select_existing_account_def then_run_def
        load_accounts_from_json_def os_path_exists_def three_stored_def blank_def
        accounts_filename_def alice_def bob_def carol_def print_def py_input_def py_int_def
        is_int_space_def unsigned_def max_str_digits_def is_digit_def digit_value_def position_def
        Let_def)

text \<open>
  C8, amended: using a stored account never calls \<open>get_token\<close> and never writes the store:
  the files are unchanged, no write is attempted and every request sent is a GET. When the
  token field of the selected record is absent, or holds a value that counts as false, no
  request at all is sent. When the accounts are listed, a record in range is selected and
  its token field holds a value that counts as true, the first request is the message
  listing with that stored token as the bearer.
\<close>

theorem use_existing_account_never_authenticates:
  "files (snd (use_existing_account b fn w)) = files w
   \<and> writes (snd (use_existing_account b fn w)) = writes w
   \<and> (\<exists>new. sent (snd (use_existing_account b fn w)) = sent w @ new
             \<and> list_all (\<lambda>rq. verb rq = GET) new)
   \<and> (fst (load_accounts_from_json fn w) = Inr existing \<and> stdin w = l # ls \<and> py_int l = Inr k
        \<and> py_index existing (k - 1) = Inr rec
        \<and> (\<forall>tok. py_getitem rec ''token'' = Inr tok \<longrightarrow> \<not> truthy tok)
      \<longrightarrow> sent (snd (use_existing_account b fn w)) = sent w)
   \<and> (files w fn = Holds (Dumped (JArr accs))
        \<and> (\<forall>a\<in>set accs. (\<exists>x. py_getitem a ''address'' = Inr x) \<and> (\<exists>y. py_getitem a ''id'' = Inr y))
        \<and> stdin w = l # ls \<and> py_int l = Inr k \<and> 1 \<le> k \<and> k \<le> int (length accs)
        \<and> py_getitem (accs ! nat (k - 1)) ''token'' = Inr t \<and> truthy t
      \<longrightarrow> (\<exists>more. sent (snd (use_existing_account b fn w)) =
             sent w @ \<lparr>verb = GET, url = b @ ''/messages'',
                       headers = [(''Authorization'', [Lit ''Bearer '', Val t])],
                       payload = None\<rparr> # more))"
proof -
  let ?w = "snd (use_existing_account b fn w)"
  from reads_only_use_existing [of w b fn]
  have 1: "files ?w = files w \<and> writes ?w = writes w
           \<and> (\<exists>new. sent ?w = sent w @ new \<and> list_all (\<lambda>rq. verb rq = GET) new)"
    by (simp add: reads_only_def)
  have 2: "sent ?w = sent w"
    if "fst (load_accounts_from_json fn w) = Inr existing \<and> stdin w = l # ls \<and> py_int l = Inr k
        \<and> py_index existing (k - 1) = Inr rec
        \<and> (\<forall>tok. py_getitem rec ''token'' = Inr tok \<longrightarrow> \<not> truthy tok)"
    using that use_existing_no_request [of fn w existing l ls k rec b] by blast
  have 3: "\<exists>more. sent ?w = sent w @ \<lparr>verb = GET, url = b @ ''/messages'',
                       headers = [(''Authorization'', [Lit ''Bearer '', Val t])],
                       payload = None\<rparr> # more"
    if h: "files w fn = Holds (Dumped (JArr accs))
        \<and> (\<forall>a\<in>set accs. (\<exists>x. py_getitem a ''address'' = Inr x) \<and> (\<exists>y. py_getitem a ''id'' = Inr y))
        \<and> stdin w = l # ls \<and> py_int l = Inr k \<and> 1 \<le> k \<and> k \<le> int (length accs)
        \<and> py_getitem (accs ! nat (k - 1)) ''token'' = Inr t \<and> truthy t"
  proof -
    from h have s: "fst (select_existing_account fn w) = Inr (Some t)"
      by (intro select_ok [of w fn accs l ls k t]) auto
    obtain w1 where w1: "select_existing_account fn w = (Inr (Some t), w1)"
      using s by (cases "select_existing_account fn w") auto
    from untouched_select [of w fn] w1 have u: "sent w1 = sent w"
      by (simp add: untouched_def)
    from h have "truthy t" by blast
    from check_messages_first_request [OF this, of b w1] u w1 show ?thesis
      by (simp add: use_existing_account_def then_run_def)
  qed
  from 1 2 3 show ?thesis by blast
qed

theorem use_existing_account_never_authenticates_witness:
  "files (snd (use_existing_account default_base_url accounts_filename three_stored))
     = files three_stored
   \<and> sent (snd (use_existing_account default_base_url accounts_filename three_stored))
     = sent three_stored
   \<and> (\<exists>more. sent (snd (use_existing_account default_base_url accounts_filename
                          (three_stored\<lparr>stdin := [''3'']\<rparr>))) =
         sent (three_stored\<lparr>stdin := [''3'']\<rparr>)
         @ \<lparr>verb = GET, url = default_base_url @ ''/messages'',
             headers = [(''Authorization'', [Lit ''Bearer '', Val (JStr ''tc'')])],
             payload = None\<rparr> # more)"
proof -
  let ?v = "three_stored\<lparr>stdin := [''3'']\<rparr>"
  let ?accs = "[alice, bob, carol]"
  have int2: "py_int ''2'' = Inr 2" and int3: "py_int ''3'' = Inr 3"
    by (simp_all add: py_int_def is_int_space_def unsigned_def max_str_digits_def is_digit_def
          digit_value_def)
  have f: "files three_stored accounts_filename = Holds (Dumped (JArr ?accs))"
    and f': "files ?v accounts_filename = Holds (Dumped (JArr ?accs))"
    by (simp_all add: three_stored_def blank_def)
  have a1: "fst (load_accounts_from_json accounts_filename three_stored) = Inr (JArr ?accs)"
    using load_Dumped [OF f] by simp
  have a2: "stdin three_stored = ''2'' # []"
    by (simp add: three_stored_def blank_def)
  have a4: "py_index (JArr ?accs) (2 - 1) = Inr bob"
    by (simp add: position_def)
  have a5: "\<forall>tok. py_getitem bob ''token'' = Inr tok \<longrightarrow> \<not> truthy tok"
    by (simp add: bob_def)
  have b2: "\<forall>a\<in>set ?accs. (\<exists>x. py_getitem a ''address'' = Inr x) \<and> (\<exists>y. py_getitem a ''id'' = Inr y)"
    by (simp add: alice_def bob_def carol_def)
  have b3: "stdin ?v = ''3'' # []"
    by simp
  have b5: "(1::int) \<le> 3 \<and> (3::int) \<le> int (length ?accs)"
    by simp
  have b6: "py_getitem (?accs ! nat (3 - 1)) ''token'' = Inr (JStr ''tc'') \<and> truthy (JStr ''tc'')"
    by (simp add: carol_def)
  from use_existing_account_never_authenticates
         [of default_base_url accounts_filename three_stored "JArr ?accs" "''2''" "[]" 2 bob]
       a1 a2 int2 a4 a5
  have 1: "files (snd (use_existing_account default_base_url accounts_filename three_stored))
             = files three_stored
           \<and> sent (snd (use_existing_account default_base_url accounts_filename three_stored))
             = sent three_stored"
    by blast
  from use_existing_account_never_authenticates
         [of default_base_url accounts_filename ?v _ "''3''" "[]" 3 _ ?accs "JStr ''tc''"]
       f' b2 b3 int3 b5 b6
  have 2: "\<exists>more. sent (snd (use_existing_account default_base_url accounts_filename ?v)) =
         sent ?v
         @ \<lparr>verb = GET, url = default_base_url @ ''/messages'',
             headers = [(''Authorization'', [Lit ''Bearer '', Val (JStr ''tc'')])],
             payload = None\<rparr> # more"
    by blast
  from 1 2 show ?thesis by blast
qed

end
